theory Spec2Isabelle
  imports Complex_Main "HOL-Library.Word"
begin

section \<open>Strings and paths\<close>

text \<open>
  A Python \<open>str\<close> is modelled as a \<open>string\<close> whose characters are the code points
  below 256. On that range \<open>str.lower\<close> maps \<open>A\<close>..\<open>Z\<close> and the Latin-1 capitals
  (0xC0..0xDE without the multiplication sign 0xD7) to the code point 32 above, and leaves
  every other character alone.
\<close>

definition lower_char :: "char \<Rightarrow> char" where
  "lower_char c =
     (let n = (of_char c :: nat)
      in if (65 \<le> n \<and> n \<le> 90) \<or> (192 \<le> n \<and> n \<le> 222 \<and> n \<noteq> 215)
         then char_of (n + 32) else c)"

definition lower :: "string \<Rightarrow> string" where
  "lower s = map lower_char s"

text \<open>\<open>str.rfind\<close> for a one-character needle: the highest index, or \<open>-1\<close>.\<close>

fun rfind :: "string \<Rightarrow> char \<Rightarrow> int" where
  "rfind [] c = - 1"
| "rfind (x # xs) c =
     (let r = rfind xs c in if 0 \<le> r then r + 1 else if x = c then 0 else - 1)"

text \<open>
  \<open>genericpath._splitext\<close> of the standard library, which both \<open>posixpath.splitext\<close>
  and \<open>ntpath.splitext\<close> call: the extension starts at the last dot after the last
  separator, unless only dots lie between the separator and that dot. The inner
  \<open>while\<close> loop is \<open>skip_leading_dots\<close>.
\<close>

function skip_leading_dots :: "string \<Rightarrow> char \<Rightarrow> nat \<Rightarrow> nat \<Rightarrow> string \<times> string" where
  "skip_leading_dots p extsep filenameIndex dotIndex =
     (if filenameIndex < dotIndex
      then (if p ! filenameIndex \<noteq> extsep
            then (take dotIndex p, drop dotIndex p)
            else skip_leading_dots p extsep (Suc filenameIndex) dotIndex)
      else (p, []))"
  by pat_completeness auto
termination
  by (relation "measure (\<lambda>(p, extsep, filenameIndex, dotIndex). dotIndex - filenameIndex)") auto

definition genericpath_splitext :: "string \<Rightarrow> char \<Rightarrow> char option \<Rightarrow> char \<Rightarrow> string \<times> string" where
  "genericpath_splitext p sep altsep extsep =
     (let sepIndex0 = rfind p sep;
          sepIndex = (case altsep of None \<Rightarrow> sepIndex0
                      | Some a \<Rightarrow> max sepIndex0 (rfind p a));
          dotIndex = rfind p extsep
      in if sepIndex < dotIndex
         then skip_leading_dots p extsep (nat (sepIndex + 1)) (nat dotIndex)
         else (p, []))"

definition posixpath_splitext :: "string \<Rightarrow> string \<times> string" where
  "posixpath_splitext p = genericpath_splitext p (CHR ''/'') None (CHR ''.'')"

definition ntpath_splitext :: "string \<Rightarrow> string \<times> string" where
  "ntpath_splitext p = genericpath_splitext p (CHR 0x5C) (Some (CHR ''/'')) (CHR ''.'')"

text \<open>The decimal text of a non-negative integer, as an f-string prints it.\<close>

function str_nat :: "nat \<Rightarrow> string" where
  "str_nat n =
     (if n < 10 then [char_of (48 + n)]
      else str_nat (n div 10) @ [char_of (48 + n mod 10)])"
  by pat_completeness auto
termination
  by (relation "measure id") auto

section \<open>The host: what the program asks of its environment\<close>

text \<open>
  Exceptions are values. Only the two classes the source's handlers name are told apart:
  \<open>ImportError\<close>, and every other subclass of \<open>Exception\<close>; each carries the text
  \<open>str(e)\<close>. Interrupts and interpreter exit (outside class \<open>Exception\<close>) are not
  modelled.
\<close>

datatype exc = ImportError string | Exception string

fun str_exc :: "exc \<Rightarrow> string" where
  "str_exc (ImportError m) = m"
| "str_exc (Exception m) = m"

type_synonym 'a outcome = "exc + 'a"

type_synonym bytes = "8 word list"

record CompletedProcess =
  returncode :: int
  stdout :: bytes
  stderr :: bytes

text \<open>
  The host answers every call the program makes outside itself:
  \<^item> \<open>platform_system\<close>: the value of \<open>platform.system()\<close>;
  \<^item> \<open>import_docx2pdf\<close>: \<open>None\<close> when \<open>import docx2pdf\<close> succeeds, the exception
    it raises otherwise;
  \<^item> \<open>os_path_exists\<close>, \<open>shutil_which\<close>: the two library lookups, which return a
    value for every string;
  \<^item> \<open>docx2pdf_convert\<close>: \<open>None\<close> when the automation call returns, the exception it
    raises otherwise;
  \<^item> \<open>subprocess_run\<close>: the child process run to completion with both pipes captured
    (its exit status is examined by the caller, as \<open>check=True\<close> does), or the exception
    raised before a process has run. The first argument is the command list, whose first
    entry is the attribute \<open>libreoffice_path\<close> and so may be \<open>None\<close>; the second is the
    \<open>dwFlags\<close> of the \<open>STARTUPINFO\<close> passed, if one is;
  \<^item> \<open>decode_utf8_ignore\<close>: \<open>bytes.decode('utf-8', errors='ignore')\<close>, a value for
    every byte sequence;
  \<^item> \<open>os_path_basename\<close>, \<open>os_path_dirname\<close>: the path functions whose results are
    only passed on.
\<close>

record host =
  platform_system :: string
  import_docx2pdf :: "exc option"
  os_path_exists :: "string \<Rightarrow> bool"
  shutil_which :: "string \<Rightarrow> string option"
  docx2pdf_convert :: "string \<Rightarrow> string \<Rightarrow> exc option"
  subprocess_run :: "string option list \<Rightarrow> nat option \<Rightarrow> CompletedProcess outcome"
  decode_utf8_ignore :: "bytes \<Rightarrow> string"
  os_path_basename :: "string \<Rightarrow> string"
  os_path_dirname :: "string \<Rightarrow> string"

text \<open>\<open>os.path\<close> is \<open>ntpath\<close> on a Windows host and \<open>posixpath\<close> elsewhere.\<close>

definition os_path_splitext :: "host \<Rightarrow> string \<Rightarrow> string \<times> string" where
  "os_path_splitext env p =
     (if platform_system env = ''Windows'' then ntpath_splitext p else posixpath_splitext p)"

text \<open>Every call that leaves the program is recorded, in the order it is made.\<close>

datatype event =
    ImportDocx2pdf
  | PathExists string
  | Which string
  | Docx2pdfConvert string string
  | SubprocessRun "string option list" "nat option"
  | ConvertToPdf string string

section \<open>DocumentConverter\<close>

record DocumentConverter =
  has_word :: bool
  libreoffice_path :: "string option"
  supported_extensions :: "string list"

text \<open>Truth value of an optional string in a condition: \<open>None\<close> and \<open>""\<close> are false.\<close>

fun truthy :: "string option \<Rightarrow> bool" where
  "truthy None = False"
| "truthy (Some s) = (s \<noteq> [])"

subsection \<open>Capability probes\<close>

definition check_word_installed :: "host \<Rightarrow> bool outcome \<times> event list" where
  "check_word_installed env =
     (if platform_system env \<noteq> ''Windows'' then (Inr False, [])
      else (case import_docx2pdf env of
              None \<Rightarrow> (Inr True, [ImportDocx2pdf])
            | Some (ImportError m) \<Rightarrow> (Inr False, [ImportDocx2pdf])
            | Some (Exception m) \<Rightarrow> (Inr False, [ImportDocx2pdf])))"

definition is_command_available :: "host \<Rightarrow> string \<Rightarrow> bool outcome \<times> event list" where
  "is_command_available env command =
     (Inr (shutil_which env command \<noteq> None), [Which command])"

definition windows_paths :: "string list" where
  "windows_paths =
     [''C:'' @ [CHR 0x5C] @ ''Program Files'' @ [CHR 0x5C] @ ''LibreOffice'' @ [CHR 0x5C]
        @ ''program'' @ [CHR 0x5C] @ ''soffice.exe'',
      ''C:'' @ [CHR 0x5C] @ ''Program Files (x86)'' @ [CHR 0x5C] @ ''LibreOffice'' @ [CHR 0x5C]
        @ ''program'' @ [CHR 0x5C] @ ''soffice.exe'']"

definition darwin_paths :: "string list" where
  "darwin_paths = [''/Applications/LibreOffice.app/Contents/MacOS/soffice'']"

text \<open>The loop \<open>for path in paths_to_check\<close>: the first path that exists ends it.\<close>

fun check_paths :: "host \<Rightarrow> string list \<Rightarrow> string option \<times> event list" where
  "check_paths env [] = (None, [])"
| "check_paths env (path # rest) =
     (if os_path_exists env path then (Some path, [PathExists path])
      else (case check_paths env rest of (r, t) \<Rightarrow> (r, PathExists path # t)))"

text \<open>What follows the choice of \<open>paths_to_check\<close>: the loop, then the search path.\<close>

definition find_in :: "host \<Rightarrow> string list \<Rightarrow> string option outcome \<times> event list" where
  "find_in env paths_to_check =
     (case check_paths env paths_to_check of
        (Some path, t) \<Rightarrow> (Inr (Some path), t)
      | (None, t) \<Rightarrow>
          (case is_command_available env ''soffice'' of
             (Inl e, t') \<Rightarrow> (Inl e, t @ t')
           | (Inr avail, t') \<Rightarrow> (Inr (if avail then Some ''soffice'' else None), t @ t')))"

definition find_libreoffice :: "host \<Rightarrow> string option outcome \<times> event list" where
  "find_libreoffice env =
     (let system = platform_system env
      in if system = ''Windows'' then find_in env windows_paths
         else if system = ''Darwin'' then find_in env darwin_paths
         else (Inr (Some ''soffice''), []))"

text \<open>The attributes the constructor sets, for given probe results.\<close>

definition snapshot :: "bool \<Rightarrow> string option \<Rightarrow> DocumentConverter" where
  "snapshot w lp =
     \<lparr>has_word = w, libreoffice_path = lp,
      supported_extensions = [''.docx'', ''.doc'', ''.odt'', ''.rtf'']\<rparr>"

text \<open>The constructor: both probes, then the attributes.\<close>

definition DocumentConverter_init :: "host \<Rightarrow> DocumentConverter outcome \<times> event list" where
  "DocumentConverter_init env =
     (case check_word_installed env of
        (Inl e, t) \<Rightarrow> (Inl e, t)
      | (Inr w, t) \<Rightarrow>
          (case find_libreoffice env of
             (Inl e, t') \<Rightarrow> (Inl e, t @ t')
           | (Inr lp, t') \<Rightarrow>
               (Inr (snapshot w lp), t @ t')))"

subsection \<open>Conversion\<close>

definition STARTF_USESHOWWINDOW :: nat where
  "STARTF_USESHOWWINDOW = 1"

text \<open>
  The headless backend. Everything happens inside one \<open>try\<close>: a non-zero exit status
  is the \<open>CalledProcessError\<close> that \<open>check=True\<close> raises, any other exception takes the
  last handler.
\<close>

definition convert_with_libreoffice ::
  "host \<Rightarrow> DocumentConverter \<Rightarrow> string \<Rightarrow> string \<Rightarrow> (bool \<times> string) outcome \<times> event list" where
  "convert_with_libreoffice env self input_path output_folder =
     (let cmd = [libreoffice_path self, Some ''--headless'', Some ''--convert-to'', Some ''pdf'',
                 Some input_path, Some ''--outdir'', Some output_folder];
          startupinfo = (if platform_system env = ''Windows''
                         then Some STARTF_USESHOWWINDOW else None)
      in (case subprocess_run env cmd startupinfo of
            Inr result \<Rightarrow>
              (if returncode result = 0
               then Inr (True, ''Convertido com LibreOffice: '' @ os_path_basename env input_path)
               else Inr (False, ''Erro LibreOffice: '' @ decode_utf8_ignore env (stderr result)))
          | Inl e \<Rightarrow>
              Inr (False, ''Erro gen'' @ [CHR 0xE9] @ ''rico LibreOffice: '' @ str_exc e),
          [SubprocessRun cmd startupinfo]))"

text \<open>
  The body of the \<open>try\<close> of the word-processor branch: the import, then the call.
  \<open>None\<close> when both return.
\<close>

definition call_docx2pdf :: "host \<Rightarrow> string \<Rightarrow> string \<Rightarrow> exc option \<times> event list" where
  "call_docx2pdf env input_path output_folder =
     (case import_docx2pdf env of
        Some e \<Rightarrow> (Some e, [ImportDocx2pdf])
      | None \<Rightarrow> (docx2pdf_convert env input_path output_folder,
                 [ImportDocx2pdf, Docx2pdfConvert input_path output_folder]))"

definition convert_to_pdf ::
  "host \<Rightarrow> DocumentConverter \<Rightarrow> string \<Rightarrow> string \<Rightarrow> (bool \<times> string) outcome \<times> event list" where
  "convert_to_pdf env self input_path output_folder =
     (let ext = lower (snd (os_path_splitext env input_path));
          filename = os_path_basename env input_path
      in if ext \<notin> set (supported_extensions self)
         then (Inr (False, ''Extens'' @ [CHR 0xE3] @ ''o n'' @ [CHR 0xE3] @ ''o suportada: '' @ ext), [])
         else
           (let use_word = (has_word self \<and> ext \<in> set [''.docx'', ''.doc''])
            in if use_word
               then (case call_docx2pdf env input_path output_folder of
                       (None, t) \<Rightarrow> (Inr (True, ''Convertido com Word: '' @ filename), t)
                     | (Some e, t) \<Rightarrow>
                         (if truthy (libreoffice_path self)
                          then (case convert_with_libreoffice env self input_path output_folder of
                                  (r, t') \<Rightarrow> (r, t @ t'))
                          else (Inr (False, ''Erro Word: '' @ str_exc e), t)))
               else if truthy (libreoffice_path self)
               then convert_with_libreoffice env self input_path output_folder
               else (Inr (False, ''Nenhum conversor (Word ou LibreOffice) encontrado.''), [])))"

section \<open>ConverterApp: the batch worker\<close>

text \<open>
  Of the window, the worker touches the log box (the texts inserted, in order), the
  progress bar, and the queue of callbacks handed to the event loop with \<open>after\<close>.
\<close>

datatype callback = reset_ui

record ConverterApp =
  converter :: DocumentConverter
  selected_files :: "string list"
  is_converting :: bool
  log_box :: "string list"
  progress_bar :: rat
  after_queue :: "callback list"

definition log_message :: "ConverterApp \<Rightarrow> string \<Rightarrow> ConverterApp" where
  "log_message self message = self\<lparr>log_box := log_box self @ [message @ [CHR 0x0A]]\<rparr>"

text \<open>
  The loop \<open>for i, file_path in enumerate(self.selected_files)\<close>, carrying the window
  and \<open>success_count\<close>. The body has no handler: an exception of \<open>convert_to_pdf\<close> would
  end the worker.
\<close>

fun conversion_loop ::
  "host \<Rightarrow> nat \<Rightarrow> (nat \<times> string) list \<Rightarrow> ConverterApp \<Rightarrow> nat
     \<Rightarrow> (ConverterApp \<times> nat) outcome \<times> event list" where
  "conversion_loop env total_n [] self success_count = (Inr (self, success_count), [])"
| "conversion_loop env total_n ((i, file_path) # rest) self success_count =
     (let output_folder = os_path_dirname env file_path
      in (case convert_to_pdf env (converter self) file_path output_folder of
            (Inl e, t) \<Rightarrow> (Inl e, ConvertToPdf file_path output_folder # t)
          | (Inr (success, msg), t) \<Rightarrow>
              (let (success_count', self') =
                     (if success
                      then (success_count + 1, log_message self (''[OK] '' @ msg))
                      else (success_count, log_message self (''[ERRO] '' @ msg)));
                   progress = (of_nat (i + 1) / of_nat total_n :: rat);
                   self'' = self'\<lparr>progress_bar := progress\<rparr>
               in (case conversion_loop env total_n rest self'' success_count' of
                     (r, t') \<Rightarrow> (r, ConvertToPdf file_path output_folder # t @ t')))))"

definition run_conversion :: "host \<Rightarrow> ConverterApp \<Rightarrow> ConverterApp outcome \<times> event list" where
  "run_conversion env self =
     (let total_n = length (selected_files self);
          self1 = log_message self (replicate 30 (CHR ''-''));
          self2 = log_message self1 (''Iniciando convers'' @ [CHR 0xE3] @ ''o...'')
      in (case conversion_loop env total_n (enumerate 0 (selected_files self)) self2 0 of
            (Inl e, t) \<Rightarrow> (Inl e, t)
          | (Inr (self3, success_count), t) \<Rightarrow>
              (let self4 = log_message self3 (replicate 30 (CHR ''-''));
                   self5 = log_message self4
                             (''Conclu'' @ [CHR 0xED] @ ''do! '' @ str_nat success_count @ ''/''
                                @ str_nat total_n @ '' arquivos convertidos.'')
               in (Inr (self5\<lparr>after_queue := after_queue self5 @ [reset_ui]\<rparr>), t))))"

section \<open>Observing a trace\<close>

datatype backend = Word | Headless

fun backend_of :: "event \<Rightarrow> backend option" where
  "backend_of ImportDocx2pdf = Some Word"
| "backend_of (Docx2pdfConvert i out) = Some Word"
| "backend_of (SubprocessRun cmd si) = Some Headless"
| "backend_of (PathExists p) = None"
| "backend_of (Which c) = None"
| "backend_of (ConvertToPdf i out) = None"

text \<open>The backends a trace attempts, in order, and whether a given one is among them.\<close>

definition backends :: "event list \<Rightarrow> backend list" where
  "backends t = List.map_filter backend_of t"

definition attempted :: "backend \<Rightarrow> event list \<Rightarrow> bool" where
  "attempted b t = (b \<in> set (backends t))"

text \<open>Whether converting one file of a batch reports success.\<close>

definition converted :: "host \<Rightarrow> DocumentConverter \<Rightarrow> string \<Rightarrow> bool" where
  "converted env conv file_path =
     (case fst (convert_to_pdf env conv file_path (os_path_dirname env file_path)) of
        Inr (success, msg) \<Rightarrow> success
      | Inl e \<Rightarrow> False)"

text \<open>The line the worker logs for one file.\<close>

definition log_line :: "host \<Rightarrow> DocumentConverter \<Rightarrow> string \<Rightarrow> string" where
  "log_line env conv file_path =
     (case fst (convert_to_pdf env conv file_path (os_path_dirname env file_path)) of
        Inr (success, msg) \<Rightarrow> (if success then ''[OK] '' else ''[ERRO] '') @ msg @ [CHR 0x0A]
      | Inl e \<Rightarrow> [])"

section \<open>Sample hosts\<close>

text \<open>
  \<open>posixpath.basename\<close> and \<open>posixpath.dirname\<close>, for the sample hosts. On the
  forward-slash paths used below \<open>ntpath\<close> gives the same results.
\<close>

definition posixpath_basename :: "string \<Rightarrow> string" where
  "posixpath_basename p = drop (nat (rfind p (CHR ''/'') + 1)) p"

definition posixpath_dirname :: "string \<Rightarrow> string" where
  "posixpath_dirname p =
     (let i = nat (rfind p (CHR ''/'') + 1);
          head = take i p
      in if head \<noteq> [] \<and> head \<noteq> replicate (length head) (CHR ''/'')
         then rev (dropWhile (\<lambda>c. c = CHR ''/'') (rev head))
         else head)"

text \<open>A stand-in for the decoder, exact on ASCII: bytes from 128 up are dropped.\<close>

definition ascii_decode :: "bytes \<Rightarrow> string" where
  "ascii_decode bs = map (\<lambda>b. char_of (unat b)) (filter (\<lambda>b. unat b < 128) bs)"

text \<open>
  A Linux machine on which the bridge library happens to be importable and no
  \<open>soffice\<close> is installed: every launch fails.
\<close>

definition linux_host :: host where
  "linux_host =
     \<lparr>platform_system = ''Linux'',
      import_docx2pdf = None,
      os_path_exists = (\<lambda>p. False),
      shutil_which = (\<lambda>c. None),
      docx2pdf_convert = (\<lambda>i out. Some (Exception ''docx2pdf is not implemented for linux'')),
      subprocess_run = (\<lambda>cmd si. Inl (Exception ''[Errno 2] No such file or directory'')),
      decode_utf8_ignore = ascii_decode,
      os_path_basename = posixpath_basename,
      os_path_dirname = posixpath_dirname\<rparr>"

text \<open>
  A Windows machine with the bridge library, with no LibreOffice at the two listed
  paths and with \<open>soffice\<close> on the search path. The word processor fails on
  \<open>broken.docx\<close>; the headless converter exits with status 1 and \<open>bad\<close> on its
  error stream for \<open>bad.odt\<close>, and with status 0 for every other file.
\<close>

definition windows_host :: host where
  "windows_host =
     \<lparr>platform_system = ''Windows'',
      import_docx2pdf = None,
      os_path_exists = (\<lambda>p. False),
      shutil_which = (\<lambda>c. if c = ''soffice'' then Some ''C:/tools/soffice.exe'' else None),
      docx2pdf_convert =
        (\<lambda>i out. if i = ''C:/docs/broken.docx'' then Some (Exception ''Word failed'') else None),
      subprocess_run =
        (\<lambda>cmd si. Inr \<lparr>returncode = (if Some ''C:/docs/bad.odt'' \<in> set cmd then 1 else 0),
                        stdout = [], stderr = [0x62, 0x61, 0x64]\<rparr>),
      decode_utf8_ignore = ascii_decode,
      os_path_basename = posixpath_basename,
      os_path_dirname = posixpath_dirname\<rparr>"

text \<open>
  A Mac without the bridge library, with LibreOffice at its usual place and no
  \<open>soffice\<close> on the search path.
\<close>

definition mac_host :: host where
  "mac_host =
     \<lparr>platform_system = ''Darwin'',
      import_docx2pdf = Some (ImportError ''No module named docx2pdf''),
      os_path_exists = (\<lambda>p. p = ''/Applications/LibreOffice.app/Contents/MacOS/soffice''),
      shutil_which = (\<lambda>c. None),
      docx2pdf_convert = (\<lambda>i out. Some (Exception ''docx2pdf is not available'')),
      subprocess_run = (\<lambda>cmd si. Inr \<lparr>returncode = 0, stdout = [], stderr = []\<rparr>),
      decode_utf8_ignore = ascii_decode,
      os_path_basename = posixpath_basename,
      os_path_dirname = posixpath_dirname\<rparr>"

text \<open>
  A batch of three files on the Windows machine, with the converter its constructor
  leaves; the headless converter fails on the second file.
\<close>

definition sample_batch :: ConverterApp where
  "sample_batch =
     \<lparr>converter = snapshot True (Some ''soffice''),
      selected_files = [''C:/docs/a.docx'', ''C:/docs/bad.odt'', ''C:/docs/c.rtf''],
      is_converting = True,
      log_box = [],
      progress_bar = 0,
      after_queue = []\<rparr>"

section \<open>The capability probes\<close>

lemma check_paths_result: "fst (check_paths env ps) = find (os_path_exists env) ps"
  by (induction ps) (auto split: prod.splits)

lemma check_paths_trace:
  "snd (check_paths env ps) =
     map PathExists
       (case find (os_path_exists env) ps of
          None \<Rightarrow> ps
        | Some p \<Rightarrow> takeWhile (\<lambda>q. \<not> os_path_exists env q) ps @ [p])"
  by (induction ps) (auto split: prod.splits option.splits)

lemma find_in_eq:
  "find_in env ps =
     (case find (os_path_exists env) ps of
        Some p \<Rightarrow>
          (Inr (Some p), map PathExists (takeWhile (\<lambda>q. \<not> os_path_exists env q) ps @ [p]))
      | None \<Rightarrow>
          (Inr (if shutil_which env ''soffice'' \<noteq> None then Some ''soffice'' else None),
           map PathExists ps @ [Which ''soffice'']))"
proof -
  obtain r t where rt: "check_paths env ps = (r, t)"
    by (cases "check_paths env ps")
  have r: "r = find (os_path_exists env) ps"
    using check_paths_result [of env ps] rt by simp
  have t: "t = map PathExists
       (case find (os_path_exists env) ps of
          None \<Rightarrow> ps
        | Some p \<Rightarrow> takeWhile (\<lambda>q. \<not> os_path_exists env q) ps @ [p])"
    using check_paths_trace [of env ps] rt by simp
  show ?thesis
    unfolding find_in_def rt is_command_available_def
    by (simp add: r [symmetric] t split: option.splits)
qed

text \<open>
  C5. The word-processor probe answers true exactly when the host is Windows and the
  import of the bridge library succeeds. On any other host it answers false without
  even attempting the import, so whether the library is present makes no difference.
\<close>

theorem check_word_installed_windows_and_library:
  "(fst (check_word_installed env) = Inr True
      \<longleftrightarrow> platform_system env = ''Windows'' \<and> import_docx2pdf env = None)
   \<and> (platform_system env \<noteq> ''Windows'' \<longrightarrow> check_word_installed env = (Inr False, []))"
  by (auto simp: check_word_installed_def split: option.splits exc.splits)

theorem check_word_installed_windows_and_library_witness:
  "import_docx2pdf linux_host = None \<and> platform_system linux_host \<noteq> ''Windows''
   \<and> check_word_installed linux_host = (Inr False, [])
   \<and> fst (check_word_installed windows_host) = Inr True"
  using check_word_installed_windows_and_library [of linux_host]
    check_word_installed_windows_and_library [of windows_host]
  by (simp add: linux_host_def windows_host_def)

text \<open>
  C6. On a Windows host the headless probe checks the two install paths
  \<open>C:\Program Files\LibreOffice\program\soffice.exe\<close> and
  \<open>C:\Program Files (x86)\LibreOffice\program\soffice.exe\<close>, in this order; on a Mac
  host it checks the one path \<open>/Applications/LibreOffice.app/Contents/MacOS/soffice\<close>.
  It returns the first of them that exists, having looked at the paths before it and at
  no path after it. When none exists it has looked at all of them, then asks the search
  path once, and returns the bare name \<open>soffice\<close> if that resolves and \<open>None\<close> if
  not.
\<close>

theorem find_libreoffice_resolution_order:
  assumes "platform_system env = ''Windows''
             \<and> paths = [''C:'' @ [CHR 0x5C] @ ''Program Files'' @ [CHR 0x5C] @ ''LibreOffice''
                          @ [CHR 0x5C] @ ''program'' @ [CHR 0x5C] @ ''soffice.exe'',
                        ''C:'' @ [CHR 0x5C] @ ''Program Files (x86)'' @ [CHR 0x5C] @ ''LibreOffice''
                          @ [CHR 0x5C] @ ''program'' @ [CHR 0x5C] @ ''soffice.exe'']
           \<or> platform_system env = ''Darwin''
             \<and> paths = [''/Applications/LibreOffice.app/Contents/MacOS/soffice'']"
  shows "find_libreoffice env =
     (case find (os_path_exists env) paths of
        Some p \<Rightarrow>
          (Inr (Some p), map PathExists (takeWhile (\<lambda>q. \<not> os_path_exists env q) paths @ [p]))
      | None \<Rightarrow>
          (Inr (if shutil_which env ''soffice'' \<noteq> None then Some ''soffice'' else None),
           map PathExists paths @ [Which ''soffice'']))"
proof -
  from assms have "platform_system env = ''Windows'' \<and> paths = windows_paths
      \<or> platform_system env = ''Darwin'' \<and> paths = darwin_paths"
    by (simp add: windows_paths_def darwin_paths_def)
  then show ?thesis
    by (auto simp: find_libreoffice_def find_in_eq)
qed

theorem find_libreoffice_resolution_order_witness:
  "platform_system windows_host = ''Windows''
   \<and> find_libreoffice windows_host =
       (Inr (Some ''soffice''),
        [PathExists (''C:'' @ [CHR 0x5C] @ ''Program Files'' @ [CHR 0x5C] @ ''LibreOffice''
                       @ [CHR 0x5C] @ ''program'' @ [CHR 0x5C] @ ''soffice.exe''),
         PathExists (''C:'' @ [CHR 0x5C] @ ''Program Files (x86)'' @ [CHR 0x5C] @ ''LibreOffice''
                       @ [CHR 0x5C] @ ''program'' @ [CHR 0x5C] @ ''soffice.exe''),
         Which ''soffice''])
   \<and> find_libreoffice (windows_host\<lparr>os_path_exists := (\<lambda>p. True)\<rparr>) =
       (Inr (Some (''C:'' @ [CHR 0x5C] @ ''Program Files'' @ [CHR 0x5C] @ ''LibreOffice''
                     @ [CHR 0x5C] @ ''program'' @ [CHR 0x5C] @ ''soffice.exe'')),
        [PathExists (''C:'' @ [CHR 0x5C] @ ''Program Files'' @ [CHR 0x5C] @ ''LibreOffice''
                       @ [CHR 0x5C] @ ''program'' @ [CHR 0x5C] @ ''soffice.exe'')])
   \<and> find_libreoffice (windows_host\<lparr>os_path_exists :=
         (\<lambda>p. p = ''C:'' @ [CHR 0x5C] @ ''Program Files (x86)'' @ [CHR 0x5C] @ ''LibreOffice''
                     @ [CHR 0x5C] @ ''program'' @ [CHR 0x5C] @ ''soffice.exe'')\<rparr>) =
       (Inr (Some (''C:'' @ [CHR 0x5C] @ ''Program Files (x86)'' @ [CHR 0x5C] @ ''LibreOffice''
                     @ [CHR 0x5C] @ ''program'' @ [CHR 0x5C] @ ''soffice.exe'')),
        [PathExists (''C:'' @ [CHR 0x5C] @ ''Program Files'' @ [CHR 0x5C] @ ''LibreOffice''
                       @ [CHR 0x5C] @ ''program'' @ [CHR 0x5C] @ ''soffice.exe''),
         PathExists (''C:'' @ [CHR 0x5C] @ ''Program Files (x86)'' @ [CHR 0x5C] @ ''LibreOffice''
                       @ [CHR 0x5C] @ ''program'' @ [CHR 0x5C] @ ''soffice.exe'')])
   \<and> platform_system mac_host = ''Darwin''
   \<and> find_libreoffice mac_host =
       (Inr (Some ''/Applications/LibreOffice.app/Contents/MacOS/soffice''),
        [PathExists ''/Applications/LibreOffice.app/Contents/MacOS/soffice''])
   \<and> find_libreoffice (mac_host\<lparr>os_path_exists := (\<lambda>p. False)\<rparr>) =
       (Inr None,
        [PathExists ''/Applications/LibreOffice.app/Contents/MacOS/soffice'', Which ''soffice''])"
proof -
  let ?w = "[''C:'' @ [CHR 0x5C] @ ''Program Files'' @ [CHR 0x5C] @ ''LibreOffice''
                          @ [CHR 0x5C] @ ''program'' @ [CHR 0x5C] @ ''soffice.exe'',
                        ''C:'' @ [CHR 0x5C] @ ''Program Files (x86)'' @ [CHR 0x5C] @ ''LibreOffice''
                          @ [CHR 0x5C] @ ''program'' @ [CHR 0x5C] @ ''soffice.exe'']"
  let ?m = "[''/Applications/LibreOffice.app/Contents/MacOS/soffice'']"
  have pw: "platform_system windows_host = ''Windows''"
    and pm: "platform_system mac_host = ''Darwin''"
    by (simp_all add: windows_host_def mac_host_def)
  have 1: "find_libreoffice windows_host =
       (Inr (Some ''soffice''), map PathExists ?w @ [Which ''soffice''])"
    using find_libreoffice_resolution_order [of windows_host ?w]
    by (simp add: windows_host_def)
  have 2: "find_libreoffice (windows_host\<lparr>os_path_exists := (\<lambda>p. True)\<rparr>) =
       (Inr (Some (?w ! 0)), [PathExists (?w ! 0)])"
    using find_libreoffice_resolution_order [of "windows_host\<lparr>os_path_exists := (\<lambda>p. True)\<rparr>" ?w]
    by (simp add: windows_host_def)
  have 3: "find_libreoffice (windows_host\<lparr>os_path_exists := (\<lambda>p. p = ?w ! 1)\<rparr>) =
       (Inr (Some (?w ! 1)), [PathExists (?w ! 0), PathExists (?w ! 1)])"
    using find_libreoffice_resolution_order [of "windows_host\<lparr>os_path_exists := (\<lambda>p. p = ?w ! 1)\<rparr>" ?w]
    by (simp add: windows_host_def)
  have 4: "find_libreoffice mac_host = (Inr (Some (?m ! 0)), [PathExists (?m ! 0)])"
    using find_libreoffice_resolution_order [of mac_host ?m]
    by (simp add: mac_host_def)
  have 5: "find_libreoffice (mac_host\<lparr>os_path_exists := (\<lambda>p. False)\<rparr>) =
       (Inr None, [PathExists (?m ! 0), Which ''soffice''])"
    using find_libreoffice_resolution_order [of "mac_host\<lparr>os_path_exists := (\<lambda>p. False)\<rparr>" ?m]
    by (simp add: mac_host_def)
  show ?thesis
    using pw pm 1 2 3 4 5 by simp
qed

text \<open>
  C8. Both probes return a value on every host, never an exception: a failing import of
  the bridge library is answered with false, and the headless probe answers \<open>None\<close>
  exactly when the host is Windows or Mac, none of its listed paths exists and the
  search path does not resolve \<open>soffice\<close>.
\<close>

theorem probes_return_normally:
  "(\<exists>b. fst (check_word_installed env) = Inr b)
   \<and> (\<exists>p. fst (find_libreoffice env) = Inr p)
   \<and> (import_docx2pdf env \<noteq> None \<longrightarrow> fst (check_word_installed env) = Inr False)
   \<and> (fst (find_libreoffice env) = Inr None \<longleftrightarrow>
        (platform_system env = ''Windows'' \<and> find (os_path_exists env) windows_paths = None
         \<or> platform_system env = ''Darwin'' \<and> find (os_path_exists env) darwin_paths = None)
        \<and> shutil_which env ''soffice'' = None)"
proof -
  have 1: "\<exists>b. fst (check_word_installed env) = Inr b"
    by (auto simp: check_word_installed_def split: option.splits exc.splits)
  have 2: "import_docx2pdf env \<noteq> None \<longrightarrow> fst (check_word_installed env) = Inr False"
    by (simp add: check_word_installed_def split: option.splits exc.splits)
  have 3: "\<exists>p. fst (find_in env ps) = Inr p" for ps
    by (simp add: find_in_eq split: option.splits)
  have 4: "\<exists>p. fst (find_libreoffice env) = Inr p"
    using 3 by (simp add: find_libreoffice_def Let_def)
  have 5: "fst (find_in env ps) = Inr None \<longleftrightarrow>
      find (os_path_exists env) ps = None \<and> shutil_which env ''soffice'' = None" for ps
    by (simp add: find_in_eq split: option.splits)
  have 6: "fst (find_libreoffice env) = Inr None \<longleftrightarrow>
        (platform_system env = ''Windows'' \<and> find (os_path_exists env) windows_paths = None
         \<or> platform_system env = ''Darwin'' \<and> find (os_path_exists env) darwin_paths = None)
        \<and> shutil_which env ''soffice'' = None"
    using 5 by (auto simp: find_libreoffice_def Let_def)
  show ?thesis using 1 2 4 6 by blast
qed

theorem probes_return_normally_witness:
  "import_docx2pdf (windows_host\<lparr>import_docx2pdf := Some (ImportError ''No module named docx2pdf''),
       shutil_which := (\<lambda>c. None)\<rparr>) \<noteq> None
   \<and> check_word_installed (windows_host\<lparr>import_docx2pdf := Some (ImportError ''No module named docx2pdf''),
       shutil_which := (\<lambda>c. None)\<rparr>) = (Inr False, [ImportDocx2pdf])
   \<and> fst (find_libreoffice (windows_host\<lparr>import_docx2pdf := Some (ImportError ''No module named docx2pdf''),
       shutil_which := (\<lambda>c. None)\<rparr>)) = Inr None"
  using probes_return_normally [of "windows_host\<lparr>import_docx2pdf := Some (ImportError ''No module named docx2pdf''),
       shutil_which := (\<lambda>c. None)\<rparr>"]
  by (simp add: windows_host_def windows_paths_def check_word_installed_def)

section \<open>Properties of the conversion\<close>

lemma snapshot_sel [simp]:
  "has_word (snapshot w lp) = w"
  "libreoffice_path (snapshot w lp) = lp"
  "supported_extensions (snapshot w lp) = [''.docx'', ''.doc'', ''.odt'', ''.rtf'']"
  by (simp_all add: snapshot_def)

lemma convert_with_libreoffice_backends:
  "backends (snd (convert_with_libreoffice env self input_path output_folder)) = [Headless]"
  by (simp add: convert_with_libreoffice_def Let_def backends_def List.map_filter_simps)

lemma call_docx2pdf_backends:
  "backends (snd (call_docx2pdf env input_path output_folder)) = [Word]
   \<or> backends (snd (call_docx2pdf env input_path output_folder)) = [Word, Word]"
  by (simp add: call_docx2pdf_def backends_def List.map_filter_simps split: option.splits)

lemma backends_append: "backends (t @ t') = backends t @ backends t'"
  by (simp add: backends_def List.map_filter_def)

lemma convert_with_libreoffice_message:
  "fst (convert_with_libreoffice env self input_path output_folder) = Inr (s, m) \<Longrightarrow>
     (\<exists>x. m = ''Convertido com LibreOffice: '' @ x) \<or> (\<exists>x. m = ''Erro LibreOffice: '' @ x)
     \<or> (\<exists>x. m = ''Erro gen'' @ [CHR 0xE9] @ ''rico LibreOffice: '' @ x)"
  by (auto simp: convert_with_libreoffice_def Let_def split: sum.splits if_splits)

lemma lower_doc_extensions:
  "lower ''.docx'' = ''.docx''" "lower ''.doc'' = ''.doc''"
  "lower ''.odt'' = ''.odt''" "lower ''.rtf'' = ''.rtf''"
  by code_simp+

lemma convert_to_pdf_unsupported:
  "lower (snd (os_path_splitext env input_path)) \<notin> set (supported_extensions self) \<Longrightarrow>
   convert_to_pdf env self input_path output_folder
     = (Inr (False, ''Extens'' @ [CHR 0xE3] @ ''o n'' @ [CHR 0xE3] @ ''o suportada: ''
                     @ lower (snd (os_path_splitext env input_path))), [])"
  by (simp add: convert_to_pdf_def Let_def)

lemma convert_to_pdf_supported:
  "lower (snd (os_path_splitext env input_path)) \<in> set (supported_extensions self) \<Longrightarrow>
   convert_to_pdf env self input_path output_folder
     = (if has_word self \<and> (lower (snd (os_path_splitext env input_path)) = ''.docx''
                            \<or> lower (snd (os_path_splitext env input_path)) = ''.doc'')
        then (case call_docx2pdf env input_path output_folder of
                (None, t) \<Rightarrow>
                  (Inr (True, ''Convertido com Word: '' @ os_path_basename env input_path), t)
              | (Some e, t) \<Rightarrow>
                  (if truthy (libreoffice_path self)
                   then (fst (convert_with_libreoffice env self input_path output_folder),
                         t @ snd (convert_with_libreoffice env self input_path output_folder))
                   else (Inr (False, ''Erro Word: '' @ str_exc e), t)))
        else if truthy (libreoffice_path self)
        then convert_with_libreoffice env self input_path output_folder
        else (Inr (False, ''Nenhum conversor (Word ou LibreOffice) encontrado.''), []))"
proof -
  obtain r t where c: "call_docx2pdf env input_path output_folder = (r, t)"
    by (cases "call_docx2pdf env input_path output_folder")
  obtain hr ht where h: "convert_with_libreoffice env self input_path output_folder = (hr, ht)"
    by (cases "convert_with_libreoffice env self input_path output_folder")
  assume "lower (snd (os_path_splitext env input_path)) \<in> set (supported_extensions self)"
  then show ?thesis
    by (cases r) (auto simp: convert_to_pdf_def Let_def c h)
qed

lemma convert_with_libreoffice_tag:
  "\<exists>s m. fst (convert_with_libreoffice env self input_path output_folder) = Inr (s, m)
     \<and> (take 2 m = ''Co'' \<or> take 2 m = ''Er'')"
  by (cases "subprocess_run env
        [libreoffice_path self, Some ''--headless'', Some ''--convert-to'', Some ''pdf'',
         Some input_path, Some ''--outdir'', Some output_folder]
        (if platform_system env = ''Windows'' then Some STARTF_USESHOWWINDOW else None)")
     (auto simp: convert_with_libreoffice_def Let_def)

lemma convert_to_pdf_supported_tag:
  assumes "lower (snd (os_path_splitext env input_path)) \<in> set (supported_extensions self)"
  shows "\<exists>s m. fst (convert_to_pdf env self input_path output_folder) = Inr (s, m)
     \<and> (take 2 m = ''Co'' \<or> take 2 m = ''Er'' \<or> take 2 m = ''Ne'')"
proof -
  obtain s m where h: "fst (convert_with_libreoffice env self input_path output_folder) = Inr (s, m)"
      "take 2 m = ''Co'' \<or> take 2 m = ''Er''"
    using convert_with_libreoffice_tag by blast
  obtain r t where c: "call_docx2pdf env input_path output_folder = (r, t)"
    by (cases "call_docx2pdf env input_path output_folder")
  show ?thesis
    unfolding convert_to_pdf_supported [OF assms] c
    using h by (cases r) auto
qed

lemma convert_to_pdf_returns:
  "\<exists>s m. fst (convert_to_pdf env self input_path output_folder) = Inr (s, m)"
proof (cases "lower (snd (os_path_splitext env input_path)) \<in> set (supported_extensions self)")
  case True
  then show ?thesis using convert_to_pdf_supported_tag by blast
next
  case False
  then show ?thesis by (auto simp: convert_to_pdf_unsupported)
qed

text \<open>
  C4. The headless converter is run once, as
  \<open>executable --headless --convert-to pdf input_path --outdir output_folder\<close>.
  Exit status 0 gives success with a message naming LibreOffice; any other exit status gives
  failure with the decoded error stream in the message; an exception instead of a
  completed process gives failure with the generic message.
\<close>

theorem convert_with_libreoffice_result_mapping:
  assumes "libreoffice_path self = Some executable"
    and "cmd = map Some [executable, ''--headless'', ''--convert-to'', ''pdf'', input_path,
                         ''--outdir'', output_folder]"
    and "startupinfo = (if platform_system env = ''Windows'' then Some STARTF_USESHOWWINDOW else None)"
  shows "snd (convert_with_libreoffice env self input_path output_folder)
           = [SubprocessRun cmd startupinfo]
   \<and> (\<forall>result. subprocess_run env cmd startupinfo = Inr result \<and> returncode result = 0 \<longrightarrow>
         fst (convert_with_libreoffice env self input_path output_folder)
           = Inr (True, ''Convertido com LibreOffice: '' @ os_path_basename env input_path))
   \<and> (\<forall>result. subprocess_run env cmd startupinfo = Inr result \<and> returncode result \<noteq> 0 \<longrightarrow>
         fst (convert_with_libreoffice env self input_path output_folder)
           = Inr (False, ''Erro LibreOffice: '' @ decode_utf8_ignore env (stderr result)))
   \<and> (\<forall>e. subprocess_run env cmd startupinfo = Inl e \<longrightarrow>
         fst (convert_with_libreoffice env self input_path output_folder)
           = Inr (False, ''Erro gen'' @ [CHR 0xE9] @ ''rico LibreOffice: '' @ str_exc e))"
  using assms by (simp add: convert_with_libreoffice_def Let_def)

theorem convert_with_libreoffice_result_mapping_witness:
  "convert_with_libreoffice windows_host (snapshot False (Some ''soffice'')) ''C:/docs/c.rtf'' ''C:/docs''
     = (Inr (True, ''Convertido com LibreOffice: c.rtf''),
        [SubprocessRun [Some ''soffice'', Some ''--headless'', Some ''--convert-to'', Some ''pdf'',
                        Some ''C:/docs/c.rtf'', Some ''--outdir'', Some ''C:/docs''] (Some 1)])
   \<and> convert_with_libreoffice windows_host (snapshot False (Some ''soffice'')) ''C:/docs/bad.odt'' ''C:/docs''
     = (Inr (False, ''Erro LibreOffice: bad''),
        [SubprocessRun [Some ''soffice'', Some ''--headless'', Some ''--convert-to'', Some ''pdf'',
                        Some ''C:/docs/bad.odt'', Some ''--outdir'', Some ''C:/docs''] (Some 1)])
   \<and> convert_with_libreoffice linux_host (snapshot False (Some ''soffice'')) ''/home/u/c.rtf'' ''/home/u''
     = (Inr (False, ''Erro gen'' @ [CHR 0xE9] @ ''rico LibreOffice: [Errno 2] No such file or directory''),
        [SubprocessRun [Some ''soffice'', Some ''--headless'', Some ''--convert-to'', Some ''pdf'',
                        Some ''/home/u/c.rtf'', Some ''--outdir'', Some ''/home/u''] None])"
proof -
  have lp: "libreoffice_path (snapshot False (Some ''soffice'')) = Some ''soffice''"
    by simp
  have w: "platform_system windows_host = ''Windows''" "platform_system linux_host = ''Linux''"
    by (simp_all add: windows_host_def linux_host_def)
  have r1: "subprocess_run windows_host
       (map Some [''soffice'', ''--headless'', ''--convert-to'', ''pdf'', ''C:/docs/c.rtf'',
                  ''--outdir'', ''C:/docs'']) (Some STARTF_USESHOWWINDOW)
      = Inr \<lparr>returncode = 0, stdout = [], stderr = [0x62, 0x61, 0x64]\<rparr>"
    by (simp add: windows_host_def)
  have r2: "subprocess_run windows_host
       (map Some [''soffice'', ''--headless'', ''--convert-to'', ''pdf'', ''C:/docs/bad.odt'',
                  ''--outdir'', ''C:/docs'']) (Some STARTF_USESHOWWINDOW)
      = Inr \<lparr>returncode = 1, stdout = [], stderr = [0x62, 0x61, 0x64]\<rparr>"
    by (simp add: windows_host_def)
  have r3: "subprocess_run linux_host
       (map Some [''soffice'', ''--headless'', ''--convert-to'', ''pdf'', ''/home/u/c.rtf'',
                  ''--outdir'', ''/home/u'']) None
      = Inl (Exception ''[Errno 2] No such file or directory'')"
    by (simp add: linux_host_def)
  have b: "os_path_basename windows_host ''C:/docs/c.rtf'' = ''c.rtf''"
    by code_simp
  have d: "decode_utf8_ignore windows_host [0x62, 0x61, 0x64] = ''bad''"
    by code_simp
  have t1: "convert_with_libreoffice windows_host (snapshot False (Some ''soffice'')) ''C:/docs/c.rtf'' ''C:/docs''
     = (Inr (True, ''Convertido com LibreOffice: c.rtf''),
        [SubprocessRun [Some ''soffice'', Some ''--headless'', Some ''--convert-to'', Some ''pdf'',
                        Some ''C:/docs/c.rtf'', Some ''--outdir'', Some ''C:/docs''] (Some 1)])"
    using convert_with_libreoffice_result_mapping [OF lp refl refl, of windows_host
        "''C:/docs/c.rtf''" "''C:/docs''"] r1 b w
    by (simp add: prod_eq_iff STARTF_USESHOWWINDOW_def)
  have t2: "convert_with_libreoffice windows_host (snapshot False (Some ''soffice'')) ''C:/docs/bad.odt'' ''C:/docs''
     = (Inr (False, ''Erro LibreOffice: bad''),
        [SubprocessRun [Some ''soffice'', Some ''--headless'', Some ''--convert-to'', Some ''pdf'',
                        Some ''C:/docs/bad.odt'', Some ''--outdir'', Some ''C:/docs''] (Some 1)])"
    using convert_with_libreoffice_result_mapping [OF lp refl refl, of windows_host
        "''C:/docs/bad.odt''" "''C:/docs''"] r2 d w
    by (simp add: prod_eq_iff STARTF_USESHOWWINDOW_def)
  have t3: "convert_with_libreoffice linux_host (snapshot False (Some ''soffice'')) ''/home/u/c.rtf'' ''/home/u''
     = (Inr (False, ''Erro gen'' @ [CHR 0xE9] @ ''rico LibreOffice: [Errno 2] No such file or directory''),
        [SubprocessRun [Some ''soffice'', Some ''--headless'', Some ''--convert-to'', Some ''pdf'',
                        Some ''/home/u/c.rtf'', Some ''--outdir'', Some ''/home/u''] None])"
    using convert_with_libreoffice_result_mapping [OF lp refl refl, of linux_host
        "''/home/u/c.rtf''" "''/home/u''"] r3 w
    by (simp add: prod_eq_iff)
  show ?thesis
    using t1 t2 t3 by simp
qed

text \<open>
  C1. For a request whose lower-cased extension is supported, the first match wins: the
  word-processor backend is attempted exactly when the word-processor capability is true
  and the extension is \<open>.docx\<close> or \<open>.doc\<close>, and it is then the first backend tried;
  otherwise, with a headless path available, the request is the headless conversion and
  nothing else, whatever the extension; otherwise the result is the "no converter found"
  failure and nothing is invoked.
\<close>

theorem convert_to_pdf_selection_policy:
  assumes "ext = lower (snd (os_path_splitext env input_path))"
    and "ext \<in> set (supported_extensions self)"
  shows "(attempted Word (snd (convert_to_pdf env self input_path output_folder))
            \<longleftrightarrow> has_word self \<and> (ext = ''.docx'' \<or> ext = ''.doc''))
   \<and> (has_word self \<and> (ext = ''.docx'' \<or> ext = ''.doc'') \<longrightarrow>
         take 1 (backends (snd (convert_to_pdf env self input_path output_folder))) = [Word])
   \<and> (\<not> (has_word self \<and> (ext = ''.docx'' \<or> ext = ''.doc'')) \<and> truthy (libreoffice_path self) \<longrightarrow>
         convert_to_pdf env self input_path output_folder
           = convert_with_libreoffice env self input_path output_folder
         \<and> backends (snd (convert_to_pdf env self input_path output_folder)) = [Headless])
   \<and> (\<not> (has_word self \<and> (ext = ''.docx'' \<or> ext = ''.doc'')) \<and> \<not> truthy (libreoffice_path self) \<longrightarrow>
         convert_to_pdf env self input_path output_folder
           = (Inr (False, ''Nenhum conversor (Word ou LibreOffice) encontrado.''), []))"
proof -
  let ?w = "has_word self \<and> (ext = ''.docx'' \<or> ext = ''.doc'')"
  let ?c = "convert_to_pdf env self input_path output_folder"
  let ?d = "call_docx2pdf env input_path output_folder"
  let ?h = "convert_with_libreoffice env self input_path output_folder"
  have word: "backends (snd ?c) = backends (snd ?d) \<or> backends (snd ?c) = backends (snd ?d) @ [Headless]"
    if "?w"
    using that assms convert_with_libreoffice_backends [of env self input_path output_folder]
    by (cases ?d; cases ?h)
      (auto simp: convert_to_pdf_def Let_def backends_append split: option.splits)
  have headless: "?c = ?h" if "\<not> ?w" "truthy (libreoffice_path self)"
    using that assms by (auto simp: convert_to_pdf_def Let_def)
  have none: "?c = (Inr (False, ''Nenhum conversor (Word ou LibreOffice) encontrado.''), [])"
    if "\<not> ?w" "\<not> truthy (libreoffice_path self)"
    using that assms by (auto simp: convert_to_pdf_def Let_def)
  have a: "attempted Word (snd ?c)" "take 1 (backends (snd ?c)) = [Word]" if "?w"
    using word [OF that] call_docx2pdf_backends [of env input_path output_folder]
    by (auto simp: attempted_def)
  have b: "\<not> attempted Word (snd ?c)" if "\<not> ?w"
  proof (cases "truthy (libreoffice_path self)")
    case True
    then show ?thesis
      using headless [OF that True] convert_with_libreoffice_backends [of env self input_path output_folder]
      by (simp add: attempted_def)
  next
    case False
    then show ?thesis
      using none [OF that False] by (simp add: attempted_def backends_def List.map_filter_simps)
  qed
  show ?thesis
    using a b headless none convert_with_libreoffice_backends [of env self input_path output_folder]
    by metis
qed

theorem convert_to_pdf_selection_policy_witness:
  "lower (snd (os_path_splitext windows_host ''C:/docs/a.DOCX'')) = ''.docx''
   \<and> convert_to_pdf windows_host (snapshot True (Some ''soffice'')) ''C:/docs/a.DOCX'' ''C:/docs''
       = (Inr (True, ''Convertido com Word: a.DOCX''),
          [ImportDocx2pdf, Docx2pdfConvert ''C:/docs/a.DOCX'' ''C:/docs''])
   \<and> attempted Word
         (snd (convert_to_pdf windows_host (snapshot True (Some ''soffice'')) ''C:/docs/a.DOCX'' ''C:/docs''))
   \<and> lower (snd (os_path_splitext windows_host ''C:/docs/c.rtf'')) = ''.rtf''
   \<and> backends
         (snd (convert_to_pdf windows_host (snapshot True (Some ''soffice'')) ''C:/docs/c.rtf'' ''C:/docs''))
       = [Headless]
   \<and> convert_to_pdf windows_host (snapshot False None) ''C:/docs/a.DOCX'' ''C:/docs''
       = (Inr (False, ''Nenhum conversor (Word ou LibreOffice) encontrado.''), [])"
proof -
  have e1: "lower (snd (os_path_splitext windows_host ''C:/docs/a.DOCX'')) = ''.docx''"
    by code_simp
  have e2: "lower (snd (os_path_splitext windows_host ''C:/docs/c.rtf'')) = ''.rtf''"
    by code_simp
  have r1: "convert_to_pdf windows_host (snapshot True (Some ''soffice'')) ''C:/docs/a.DOCX'' ''C:/docs''
       = (Inr (True, ''Convertido com Word: a.DOCX''),
          [ImportDocx2pdf, Docx2pdfConvert ''C:/docs/a.DOCX'' ''C:/docs''])"
    by code_simp
  have t1: "attempted Word
      (snd (convert_to_pdf windows_host (snapshot True (Some ''soffice'')) ''C:/docs/a.DOCX'' ''C:/docs''))"
    using convert_to_pdf_selection_policy [OF e1 [symmetric],
        of "snapshot True (Some ''soffice'')" "''C:/docs''"]
    by simp
  have t2: "backends
      (snd (convert_to_pdf windows_host (snapshot True (Some ''soffice'')) ''C:/docs/c.rtf'' ''C:/docs''))
      = [Headless]"
    using convert_to_pdf_selection_policy [OF e2 [symmetric],
        of "snapshot True (Some ''soffice'')" "''C:/docs''"]
    by auto
  have t3: "convert_to_pdf windows_host (snapshot False None) ''C:/docs/a.DOCX'' ''C:/docs''
       = (Inr (False, ''Nenhum conversor (Word ou LibreOffice) encontrado.''), [])"
    using convert_to_pdf_selection_policy [OF e1 [symmetric], of "snapshot False None" "''C:/docs''"]
    by simp
  show ?thesis
    using e1 e2 r1 t1 t2 t3 by simp
qed

text \<open>
  C2. When the word-processor backend is attempted and raises, the result is that of the
  headless conversion of the same request exactly when a headless path is available,
  and the headless backend is attempted exactly then; with no headless path the result is
  a failure whose message carries the text of the exception.
\<close>

theorem word_failure_fallback:
  assumes "ext = lower (snd (os_path_splitext env input_path))"
    and "ext \<in> set (supported_extensions self)"
    and "has_word self" and "ext = ''.docx'' \<or> ext = ''.doc''"
    and "fst (call_docx2pdf env input_path output_folder) = Some e"
  shows "(truthy (libreoffice_path self) \<longrightarrow>
           convert_to_pdf env self input_path output_folder
             = (fst (convert_with_libreoffice env self input_path output_folder),
                snd (call_docx2pdf env input_path output_folder)
                  @ snd (convert_with_libreoffice env self input_path output_folder)))
   \<and> (\<not> truthy (libreoffice_path self) \<longrightarrow>
           convert_to_pdf env self input_path output_folder
             = (Inr (False, ''Erro Word: '' @ str_exc e),
                snd (call_docx2pdf env input_path output_folder)))
   \<and> (attempted Headless (snd (convert_to_pdf env self input_path output_folder))
        \<longleftrightarrow> truthy (libreoffice_path self))
   \<and> (fst (convert_to_pdf env self input_path output_folder)
          = fst (convert_with_libreoffice env self input_path output_folder)
        \<longleftrightarrow> truthy (libreoffice_path self))"
proof -
  let ?c = "convert_to_pdf env self input_path output_folder"
  let ?d = "call_docx2pdf env input_path output_folder"
  let ?h = "convert_with_libreoffice env self input_path output_folder"
  have yes: "?c = (fst ?h, snd ?d @ snd ?h)" if "truthy (libreoffice_path self)"
    using that assms
    by (cases ?d; cases ?h) (auto simp: convert_to_pdf_def Let_def)
  have no: "?c = (Inr (False, ''Erro Word: '' @ str_exc e), snd ?d)"
    if "\<not> truthy (libreoffice_path self)"
    using that assms
    by (cases ?d) (auto simp: convert_to_pdf_def Let_def)
  have d: "Headless \<notin> set (backends (snd ?d))"
    using call_docx2pdf_backends [of env input_path output_folder] by auto
  have att: "attempted Headless (snd ?c) \<longleftrightarrow> truthy (libreoffice_path self)"
    using yes no d convert_with_libreoffice_backends [of env self input_path output_folder]
    by (cases "truthy (libreoffice_path self)") (auto simp: attempted_def backends_append)
  have differ: "fst ?h \<noteq> Inr (False, ''Erro Word: '' @ str_exc e)"
    using convert_with_libreoffice_message [of env self input_path output_folder False
        "''Erro Word: '' @ str_exc e"]
    by auto
  have same: "fst ?c = fst ?h \<longleftrightarrow> truthy (libreoffice_path self)"
    using yes no differ by (cases "truthy (libreoffice_path self)") auto
  show ?thesis
    using yes no att same by blast
qed

theorem word_failure_fallback_witness:
  "fst (call_docx2pdf windows_host ''C:/docs/broken.docx'' ''C:/docs'') = Some (Exception ''Word failed'')
   \<and> convert_to_pdf windows_host (snapshot True (Some ''soffice'')) ''C:/docs/broken.docx'' ''C:/docs''
       = (Inr (True, ''Convertido com LibreOffice: broken.docx''),
          [ImportDocx2pdf, Docx2pdfConvert ''C:/docs/broken.docx'' ''C:/docs'',
           SubprocessRun [Some ''soffice'', Some ''--headless'', Some ''--convert-to'', Some ''pdf'',
                          Some ''C:/docs/broken.docx'', Some ''--outdir'', Some ''C:/docs'']
             (Some 1)])
   \<and> convert_to_pdf windows_host (snapshot True None) ''C:/docs/broken.docx'' ''C:/docs''
       = (Inr (False, ''Erro Word: Word failed''),
          [ImportDocx2pdf, Docx2pdfConvert ''C:/docs/broken.docx'' ''C:/docs''])"
proof -
  have e: "lower (snd (os_path_splitext windows_host ''C:/docs/broken.docx'')) = ''.docx''"
    by code_simp
  have d: "call_docx2pdf windows_host ''C:/docs/broken.docx'' ''C:/docs''
      = (Some (Exception ''Word failed''),
         [ImportDocx2pdf, Docx2pdfConvert ''C:/docs/broken.docx'' ''C:/docs''])"
    by code_simp
  have h: "convert_with_libreoffice windows_host (snapshot True (Some ''soffice''))
        ''C:/docs/broken.docx'' ''C:/docs''
      = (Inr (True, ''Convertido com LibreOffice: broken.docx''),
         [SubprocessRun [Some ''soffice'', Some ''--headless'', Some ''--convert-to'', Some ''pdf'',
                          Some ''C:/docs/broken.docx'', Some ''--outdir'', Some ''C:/docs'']
             (Some 1)])"
    by code_simp
  have t1: "convert_to_pdf windows_host (snapshot True (Some ''soffice'')) ''C:/docs/broken.docx'' ''C:/docs''
       = (Inr (True, ''Convertido com LibreOffice: broken.docx''),
          [ImportDocx2pdf, Docx2pdfConvert ''C:/docs/broken.docx'' ''C:/docs'',
           SubprocessRun [Some ''soffice'', Some ''--headless'', Some ''--convert-to'', Some ''pdf'',
                          Some ''C:/docs/broken.docx'', Some ''--outdir'', Some ''C:/docs'']
             (Some 1)])"
    using word_failure_fallback [OF e [symmetric], of "snapshot True (Some ''soffice'')" "''C:/docs''"
        "Exception ''Word failed''"] d h
    by simp
  have t2: "convert_to_pdf windows_host (snapshot True None) ''C:/docs/broken.docx'' ''C:/docs''
       = (Inr (False, ''Erro Word: Word failed''),
          [ImportDocx2pdf, Docx2pdfConvert ''C:/docs/broken.docx'' ''C:/docs''])"
    using word_failure_fallback [OF e [symmetric], of "snapshot True None" "''C:/docs''"
        "Exception ''Word failed''"] d
    by simp
  show ?thesis
    using d t1 t2 by simp
qed

text \<open>
  C3, as stated: every path whose extension is not one of \<open>.docx\<close>, \<open>.doc\<close>,
  \<open>.odt\<close>, \<open>.rtf\<close> is rejected and no backend is invoked. The extension
  \<open>.DOCX\<close> is none of the four, yet the file is handed to the word processor and
  converted.
\<close>

theorem unsupported_rejection_counterexample:
  "snd (os_path_splitext windows_host ''C:/docs/REPORT.DOCX'') = ''.DOCX''
   \<and> ''.DOCX'' \<notin> set [''.docx'', ''.doc'', ''.odt'', ''.rtf'']
   \<and> convert_to_pdf windows_host (snapshot True (Some ''soffice'')) ''C:/docs/REPORT.DOCX'' ''C:/docs''
       = (Inr (True, ''Convertido com Word: REPORT.DOCX''),
          [ImportDocx2pdf, Docx2pdfConvert ''C:/docs/REPORT.DOCX'' ''C:/docs''])"
proof -
  have 1: "snd (os_path_splitext windows_host ''C:/docs/REPORT.DOCX'') = ''.DOCX''"
    by code_simp
  have 2: "''.DOCX'' \<notin> set [''.docx'', ''.doc'', ''.odt'', ''.rtf'']"
    by simp
  have 3: "convert_to_pdf windows_host (snapshot True (Some ''soffice'')) ''C:/docs/REPORT.DOCX'' ''C:/docs''
       = (Inr (True, ''Convertido com Word: REPORT.DOCX''),
          [ImportDocx2pdf, Docx2pdfConvert ''C:/docs/REPORT.DOCX'' ''C:/docs''])"
    by code_simp
  show ?thesis using 1 2 3 by blast
qed

text \<open>
  C3, amended: every path whose lower-cased extension is not one of \<open>.docx\<close>,
  \<open>.doc\<close>, \<open>.odt\<close>, \<open>.rtf\<close> is rejected with a failure whose message ends in
  that lower-cased extension, and no call leaves the program, whatever the two
  capabilities are.
\<close>

theorem convert_to_pdf_rejects_unsupported:
  assumes "ext = lower (snd (os_path_splitext env input_path))"
    and "ext \<notin> set [''.docx'', ''.doc'', ''.odt'', ''.rtf'']"
  shows "convert_to_pdf env (snapshot w lp) input_path output_folder
     = (Inr (False, ''Extens'' @ [CHR 0xE3] @ ''o n'' @ [CHR 0xE3] @ ''o suportada: '' @ ext), [])"
  using assms by (simp add: convert_to_pdf_def Let_def)

theorem convert_to_pdf_rejects_unsupported_witness:
  "lower (snd (os_path_splitext windows_host ''C:/docs/notes.TXT'')) = ''.txt''
   \<and> ''.txt'' \<notin> set [''.docx'', ''.doc'', ''.odt'', ''.rtf'']
   \<and> convert_to_pdf windows_host (snapshot True (Some ''soffice'')) ''C:/docs/notes.TXT'' ''C:/docs''
     = (Inr (False, ''Extens'' @ [CHR 0xE3] @ ''o n'' @ [CHR 0xE3] @ ''o suportada: .txt''), [])"
proof -
  have e: "lower (snd (os_path_splitext windows_host ''C:/docs/notes.TXT'')) = ''.txt''"
    by code_simp
  have n: "''.txt'' \<notin> set [''.docx'', ''.doc'', ''.odt'', ''.rtf'']"
    by simp
  show ?thesis
    using convert_to_pdf_rejects_unsupported [OF e [symmetric] n, of True "Some ''soffice''" "''C:/docs''"] e n
    by simp
qed

lemma convert_to_pdf_first_backend:
  assumes "lower (snd (os_path_splitext env input_path)) \<in> set (supported_extensions self)"
  shows "take 1 (backends (snd (convert_to_pdf env self input_path output_folder)))
     = (if has_word self \<and> (lower (snd (os_path_splitext env input_path)) = ''.docx''
                            \<or> lower (snd (os_path_splitext env input_path)) = ''.doc'')
        then [Word] else if truthy (libreoffice_path self) then [Headless] else [])"
proof -
  obtain r t where c: "call_docx2pdf env input_path output_folder = (r, t)"
    by (cases "call_docx2pdf env input_path output_folder")
  have t: "backends t = [Word] \<or> backends t = [Word, Word]"
    using call_docx2pdf_backends [of env input_path output_folder] c by simp
  have n: "backends [] = []"
    by (simp add: backends_def List.map_filter_simps)
  show ?thesis
    unfolding convert_to_pdf_supported [OF assms] c
    using t n convert_with_libreoffice_backends [of env self input_path output_folder]
    by (cases r) (auto simp: backends_append)
qed

text \<open>
  C9. The extension is lower-cased before it is compared. So a path whose extension
  differs from a supported one only in letter case is never answered with the
  "unsupported extension" failure, and the backend tried first is the one the selection
  policy gives for the supported extension: the same as for a path that carries the
  extension in lower case.
\<close>

theorem extension_match_ignores_case:
  assumes "s \<in> set [''.docx'', ''.doc'', ''.odt'', ''.rtf'']"
    and "lower (snd (os_path_splitext env input_path)) = lower s"
    and "snd (os_path_splitext env lowercase_path) = s"
  shows "(\<forall>x. fst (convert_to_pdf env (snapshot w lp) input_path output_folder)
             \<noteq> Inr (False, ''Extens'' @ [CHR 0xE3] @ ''o n'' @ [CHR 0xE3] @ ''o suportada: '' @ x))
   \<and> take 1 (backends (snd (convert_to_pdf env (snapshot w lp) input_path output_folder)))
       = (if w \<and> (s = ''.docx'' \<or> s = ''.doc'') then [Word]
          else if truthy lp then [Headless] else [])
   \<and> take 1 (backends (snd (convert_to_pdf env (snapshot w lp) input_path output_folder)))
       = take 1 (backends (snd (convert_to_pdf env (snapshot w lp) lowercase_path output_folder')))"
proof -
  have ls: "lower s = s"
    using assms(1) lower_doc_extensions by auto
  have sup: "lower (snd (os_path_splitext env input_path)) \<in> set (supported_extensions (snapshot w lp))"
    using assms(1,2) ls by simp
  have sup': "lower (snd (os_path_splitext env lowercase_path)) \<in> set (supported_extensions (snapshot w lp))"
    using assms(1,3) ls by simp
  obtain b m where r: "fst (convert_to_pdf env (snapshot w lp) input_path output_folder) = Inr (b, m)"
      "take 2 m = ''Co'' \<or> take 2 m = ''Er'' \<or> take 2 m = ''Ne''"
    using convert_to_pdf_supported_tag [OF sup] by blast
  have 1: "fst (convert_to_pdf env (snapshot w lp) input_path output_folder)
             \<noteq> Inr (False, ''Extens'' @ [CHR 0xE3] @ ''o n'' @ [CHR 0xE3] @ ''o suportada: '' @ x)" for x
    using r by auto
  have 2: "take 1 (backends (snd (convert_to_pdf env (snapshot w lp) input_path output_folder)))
       = (if w \<and> (s = ''.docx'' \<or> s = ''.doc'') then [Word]
          else if truthy lp then [Headless] else [])"
    using convert_to_pdf_first_backend [OF sup, of output_folder] assms(2) ls by simp
  have 3: "take 1 (backends (snd (convert_to_pdf env (snapshot w lp) lowercase_path output_folder')))
       = (if w \<and> (s = ''.docx'' \<or> s = ''.doc'') then [Word]
          else if truthy lp then [Headless] else [])"
    using convert_to_pdf_first_backend [OF sup', of output_folder'] assms(3) ls by simp
  show ?thesis
    using 1 2 3 by simp
qed

theorem extension_match_ignores_case_witness:
  "lower (snd (os_path_splitext windows_host ''C:/docs/Memo.Rtf'')) = lower ''.rtf''
   \<and> snd (os_path_splitext windows_host ''C:/docs/memo.rtf'') = ''.rtf''
   \<and> convert_to_pdf windows_host (snapshot True (Some ''soffice'')) ''C:/docs/Memo.Rtf'' ''C:/docs''
       = (Inr (True, ''Convertido com LibreOffice: Memo.Rtf''),
          [SubprocessRun [Some ''soffice'', Some ''--headless'', Some ''--convert-to'', Some ''pdf'',
                          Some ''C:/docs/Memo.Rtf'', Some ''--outdir'', Some ''C:/docs''] (Some 1)])
   \<and> take 1 (backends (snd (convert_to_pdf windows_host (snapshot True (Some ''soffice''))
                               ''C:/docs/Memo.Rtf'' ''C:/docs'')))
       = take 1 (backends (snd (convert_to_pdf windows_host (snapshot True (Some ''soffice''))
                               ''C:/docs/memo.rtf'' ''C:/docs'')))"
proof -
  have m: "''.rtf'' \<in> set [''.docx'', ''.doc'', ''.odt'', ''.rtf'']"
    by simp
  have e1: "lower (snd (os_path_splitext windows_host ''C:/docs/Memo.Rtf'')) = lower ''.rtf''"
    by code_simp
  have e2: "snd (os_path_splitext windows_host ''C:/docs/memo.rtf'') = ''.rtf''"
    by code_simp
  have r: "convert_to_pdf windows_host (snapshot True (Some ''soffice'')) ''C:/docs/Memo.Rtf'' ''C:/docs''
       = (Inr (True, ''Convertido com LibreOffice: Memo.Rtf''),
          [SubprocessRun [Some ''soffice'', Some ''--headless'', Some ''--convert-to'', Some ''pdf'',
                          Some ''C:/docs/Memo.Rtf'', Some ''--outdir'', Some ''C:/docs''] (Some 1)])"
    by code_simp
  have t: "take 1 (backends (snd (convert_to_pdf windows_host (snapshot True (Some ''soffice''))
                               ''C:/docs/Memo.Rtf'' ''C:/docs'')))
       = take 1 (backends (snd (convert_to_pdf windows_host (snapshot True (Some ''soffice''))
                               ''C:/docs/memo.rtf'' ''C:/docs'')))"
    using extension_match_ignores_case [OF m e1 e2, of True "Some ''soffice''" "''C:/docs''" "''C:/docs''"]
    by blast
  show ?thesis
    using e1 e2 r t by blast
qed

text \<open>
  C10. On a host that is neither Windows nor Mac the headless probe returns the bare
  name \<open>soffice\<close> without a single lookup, so the constructor leaves a converter
  without the word processor and with that name. With this converter no request ends
  in the "no converter found" failure, and when the launch raises (as it does when
  \<open>soffice\<close> is missing) a supported request fails with the generic message.
\<close>

theorem other_hosts_assume_soffice:
  assumes "platform_system env \<noteq> ''Windows''" and "platform_system env \<noteq> ''Darwin''"
  shows "find_libreoffice env = (Inr (Some ''soffice''), [])
   \<and> DocumentConverter_init env = (Inr (snapshot False (Some ''soffice'')), [])
   \<and> (\<forall>input_path output_folder.
         fst (convert_to_pdf env (snapshot False (Some ''soffice'')) input_path output_folder)
           \<noteq> Inr (False, ''Nenhum conversor (Word ou LibreOffice) encontrado.''))
   \<and> (\<forall>input_path output_folder e.
         lower (snd (os_path_splitext env input_path)) \<in> set [''.docx'', ''.doc'', ''.odt'', ''.rtf'']
         \<and> subprocess_run env
             [Some ''soffice'', Some ''--headless'', Some ''--convert-to'', Some ''pdf'',
              Some input_path, Some ''--outdir'', Some output_folder] None = Inl e
         \<longrightarrow> convert_to_pdf env (snapshot False (Some ''soffice'')) input_path output_folder
             = (Inr (False, ''Erro gen'' @ [CHR 0xE9] @ ''rico LibreOffice: '' @ str_exc e),
                [SubprocessRun
                   [Some ''soffice'', Some ''--headless'', Some ''--convert-to'', Some ''pdf'',
                    Some input_path, Some ''--outdir'', Some output_folder] None]))"
proof -
  let ?conv = "snapshot False (Some ''soffice'')"
  have 1: "find_libreoffice env = (Inr (Some ''soffice''), [])"
    using assms by (simp add: find_libreoffice_def Let_def)
  have 2: "DocumentConverter_init env = (Inr ?conv, [])"
    using assms 1 by (simp add: DocumentConverter_init_def check_word_installed_def)
  have 3: "fst (convert_to_pdf env ?conv input_path output_folder)
           \<noteq> Inr (False, ''Nenhum conversor (Word ou LibreOffice) encontrado.'')"
    for input_path output_folder
  proof (cases "lower (snd (os_path_splitext env input_path)) \<in> set (supported_extensions ?conv)")
    case True
    obtain b m where r: "fst (convert_with_libreoffice env ?conv input_path output_folder) = Inr (b, m)"
      "take 2 m = ''Co'' \<or> take 2 m = ''Er''"
      using convert_with_libreoffice_tag by blast
    show ?thesis
      unfolding convert_to_pdf_supported [OF True] using r by auto
  next
    case False
    show ?thesis
      unfolding convert_to_pdf_unsupported [OF False] by simp
  qed
  have 4: "convert_to_pdf env ?conv input_path output_folder
             = (Inr (False, ''Erro gen'' @ [CHR 0xE9] @ ''rico LibreOffice: '' @ str_exc e),
                [SubprocessRun
                   [Some ''soffice'', Some ''--headless'', Some ''--convert-to'', Some ''pdf'',
                    Some input_path, Some ''--outdir'', Some output_folder] None])"
    if "lower (snd (os_path_splitext env input_path)) \<in> set [''.docx'', ''.doc'', ''.odt'', ''.rtf'']"
      and "subprocess_run env
             [Some ''soffice'', Some ''--headless'', Some ''--convert-to'', Some ''pdf'',
              Some input_path, Some ''--outdir'', Some output_folder] None = Inl e"
    for input_path output_folder e
  proof -
    have sup: "lower (snd (os_path_splitext env input_path)) \<in> set (supported_extensions ?conv)"
      using that(1) by simp
    show ?thesis
      unfolding convert_to_pdf_supported [OF sup]
      using assms that(2) by (simp add: convert_with_libreoffice_def Let_def)
  qed
  show ?thesis
    using 1 2 3 4 by blast
qed

theorem other_hosts_assume_soffice_witness:
  "platform_system linux_host \<noteq> ''Windows'' \<and> platform_system linux_host \<noteq> ''Darwin''
   \<and> shutil_which linux_host ''soffice'' = None
   \<and> DocumentConverter_init linux_host = (Inr (snapshot False (Some ''soffice'')), [])
   \<and> convert_to_pdf linux_host (snapshot False (Some ''soffice'')) ''/home/u/c.rtf'' ''/home/u''
       = (Inr (False, ''Erro gen'' @ [CHR 0xE9] @ ''rico LibreOffice: [Errno 2] No such file or directory''),
          [SubprocessRun [Some ''soffice'', Some ''--headless'', Some ''--convert-to'', Some ''pdf'',
                          Some ''/home/u/c.rtf'', Some ''--outdir'', Some ''/home/u''] None])"
proof -
  have p: "platform_system linux_host \<noteq> ''Windows''" "platform_system linux_host \<noteq> ''Darwin''"
    by (simp_all add: linux_host_def)
  have w: "shutil_which linux_host ''soffice'' = None"
    by (simp add: linux_host_def)
  have e: "lower (snd (os_path_splitext linux_host ''/home/u/c.rtf'')) \<in> set [''.docx'', ''.doc'', ''.odt'', ''.rtf'']"
    by code_simp
  have r: "subprocess_run linux_host
             [Some ''soffice'', Some ''--headless'', Some ''--convert-to'', Some ''pdf'',
              Some ''/home/u/c.rtf'', Some ''--outdir'', Some ''/home/u''] None
           = Inl (Exception ''[Errno 2] No such file or directory'')"
    by (simp add: linux_host_def)
  show ?thesis
    using other_hosts_assume_soffice [OF p] p w e r by simp
qed

section \<open>Properties of the batch worker\<close>

lemma log_message_sel [simp]:
  "converter (log_message self m) = converter self"
  "selected_files (log_message self m) = selected_files self"
  "after_queue (log_message self m) = after_queue self"
  "log_box (log_message self m) = log_box self @ [m @ [CHR 0x0A]]"
  by (simp_all add: log_message_def)

lemma conversion_loop_runs_all:
  "\<exists>self'. conversion_loop env total_n (enumerate k files) self success_count
       = (Inr (self', success_count + length (filter (converted env (converter self)) files)),
          concat (map (\<lambda>f. ConvertToPdf f (os_path_dirname env f)
                         # snd (convert_to_pdf env (converter self) f (os_path_dirname env f))) files))
     \<and> log_box self' = log_box self @ map (log_line env (converter self)) files
     \<and> converter self' = converter self
     \<and> selected_files self' = selected_files self
     \<and> after_queue self' = after_queue self"
proof (induction files arbitrary: k self success_count)
  case Nil
  then show ?case by simp
next
  case (Cons f files)
  obtain s m t where c: "convert_to_pdf env (converter self) f (os_path_dirname env f) = (Inr (s, m), t)"
    using convert_to_pdf_returns [of env "converter self" f "os_path_dirname env f"]
    by (cases "convert_to_pdf env (converter self) f (os_path_dirname env f)") auto
  let ?self1 = "(if s then log_message self (''[OK] '' @ m) else log_message self (''[ERRO] '' @ m))
      \<lparr>progress_bar := of_nat (k + 1) / of_nat total_n\<rparr>"
  let ?sc1 = "if s then success_count + 1 else success_count"
  obtain self' where ih:
    "conversion_loop env total_n (enumerate (Suc k) files) ?self1 ?sc1
       = (Inr (self', ?sc1 + length (filter (converted env (converter ?self1)) files)),
          concat (map (\<lambda>f. ConvertToPdf f (os_path_dirname env f)
                         # snd (convert_to_pdf env (converter ?self1) f (os_path_dirname env f))) files))"
    "log_box self' = log_box ?self1 @ map (log_line env (converter ?self1)) files"
    "converter self' = converter ?self1"
    "selected_files self' = selected_files ?self1"
    "after_queue self' = after_queue ?self1"
    using Cons.IH [of "Suc k" ?self1 ?sc1] by blast
  have cv: "converter ?self1 = converter self" "selected_files ?self1 = selected_files self"
    "after_queue ?self1 = after_queue self"
    "log_box ?self1 = log_box self @ [log_line env (converter self) f]"
    using c by (simp_all add: log_line_def)
  have cf: "converted env (converter self) f = s"
    using c by (simp add: converted_def)
  show ?case
    using ih c cv cf by (cases s) (simp_all add: Let_def)
qed

lemma convert_to_pdf_trace_backends:
  "e \<in> set (snd (convert_to_pdf env self input_path output_folder)) \<Longrightarrow> backend_of e \<noteq> None"
proof (cases "lower (snd (os_path_splitext env input_path)) \<in> set (supported_extensions self)")
  case True
  obtain r t where c: "call_docx2pdf env input_path output_folder = (r, t)"
    by (cases "call_docx2pdf env input_path output_folder")
  have t: "e \<in> set t \<Longrightarrow> backend_of e \<noteq> None"
    using c by (auto simp: call_docx2pdf_def split: option.splits)
  have h: "e \<in> set (snd (convert_with_libreoffice env self input_path output_folder))
      \<Longrightarrow> backend_of e \<noteq> None"
    by (auto simp: convert_with_libreoffice_def Let_def)
  assume "e \<in> set (snd (convert_to_pdf env self input_path output_folder))"
  then show ?thesis
    unfolding convert_to_pdf_supported [OF True] c
    using t h by (cases r) (auto split: if_splits)
next
  case False
  assume "e \<in> set (snd (convert_to_pdf env self input_path output_folder))"
  then show ?thesis
    unfolding convert_to_pdf_unsupported [OF False] by simp
qed

lemma filter_convert_calls:
  "filter (\<lambda>e. backend_of e = None)
     (concat (map (\<lambda>f. ConvertToPdf f (d f) # snd (convert_to_pdf env conv f (d f))) files))
   = map (\<lambda>f. ConvertToPdf f (d f)) files"
proof (induction files)
  case Nil
  then show ?case by simp
next
  case (Cons f files)
  have "filter (\<lambda>e. backend_of e = None) (snd (convert_to_pdf env conv f (d f))) = []"
    using convert_to_pdf_trace_backends [of _ env conv f "d f"] by (auto simp: filter_empty_conv)
  then show ?case using Cons by simp
qed

text \<open>
  C7. For a batch of N selected files of which K fail to convert, wherever they stand,
  the worker returns, having called the conversion once for every file, in the order of
  selection and each call finished before the next begins; it logs one line per file in
  that order, and its last log line reports N - K of N.
\<close>

theorem run_conversion_processes_every_file:
  assumes "files = selected_files self" and "N = length files"
    and "K = length (filter (\<lambda>f. \<not> converted env (converter self) f) files)"
  shows "\<exists>self'. fst (run_conversion env self) = Inr self'
     \<and> log_box self' = log_box self
          @ [replicate 30 (CHR ''-'') @ [CHR 0x0A],
             ''Iniciando convers'' @ [CHR 0xE3] @ ''o...'' @ [CHR 0x0A]]
          @ map (log_line env (converter self)) files
          @ [replicate 30 (CHR ''-'') @ [CHR 0x0A],
             ''Conclu'' @ [CHR 0xED] @ ''do! '' @ str_nat (N - K) @ ''/'' @ str_nat N
               @ '' arquivos convertidos.'' @ [CHR 0x0A]]
     \<and> snd (run_conversion env self)
         = concat (map (\<lambda>f. ConvertToPdf f (os_path_dirname env f)
                         # snd (convert_to_pdf env (converter self) f (os_path_dirname env f))) files)
     \<and> filter (\<lambda>e. backend_of e = None) (snd (run_conversion env self))
         = map (\<lambda>f. ConvertToPdf f (os_path_dirname env f)) files"
proof -
  let ?self2 = "log_message (log_message self (replicate 30 (CHR ''-'')))
                  (''Iniciando convers'' @ [CHR 0xE3] @ ''o...'')"
  let ?t = "concat (map (\<lambda>f. ConvertToPdf f (os_path_dirname env f)
                         # snd (convert_to_pdf env (converter self) f (os_path_dirname env f))) files)"
  have cs: "converter ?self2 = converter self"
    by simp
  obtain self3 where l:
    "conversion_loop env N (enumerate 0 files) ?self2 0
       = (Inr (self3, 0 + length (filter (converted env (converter ?self2)) files)),
          concat (map (\<lambda>f. ConvertToPdf f (os_path_dirname env f)
                         # snd (convert_to_pdf env (converter ?self2) f (os_path_dirname env f))) files))"
    "log_box self3 = log_box ?self2 @ map (log_line env (converter ?self2)) files"
    using conversion_loop_runs_all [of env N 0 files ?self2 0] by blast
  have count: "length (filter (converted env (converter self)) files) = N - K"
    using sum_length_filter_compl [of "converted env (converter self)" files] assms(2,3) by simp
  have run: "run_conversion env self
      = (Inr ((log_message (log_message self3 (replicate 30 (CHR ''-'')))
                 (''Conclu'' @ [CHR 0xED] @ ''do! '' @ str_nat (N - K) @ ''/'' @ str_nat N
                    @ '' arquivos convertidos.''))
              \<lparr>after_queue := after_queue (log_message (log_message self3 (replicate 30 (CHR ''-'')))
                 (''Conclu'' @ [CHR 0xED] @ ''do! '' @ str_nat (N - K) @ ''/'' @ str_nat N
                    @ '' arquivos convertidos.'')) @ [reset_ui]\<rparr>), ?t)"
    using l(1) count assms(1,2) by (simp add: run_conversion_def Let_def)
  have log: "log_box ((log_message (log_message self3 (replicate 30 (CHR ''-'')))
                 (''Conclu'' @ [CHR 0xED] @ ''do! '' @ str_nat (N - K) @ ''/'' @ str_nat N
                    @ '' arquivos convertidos.''))
              \<lparr>after_queue := after_queue (log_message (log_message self3 (replicate 30 (CHR ''-'')))
                 (''Conclu'' @ [CHR 0xED] @ ''do! '' @ str_nat (N - K) @ ''/'' @ str_nat N
                    @ '' arquivos convertidos.'')) @ [reset_ui]\<rparr>)
     = log_box self
          @ [replicate 30 (CHR ''-'') @ [CHR 0x0A],
             ''Iniciando convers'' @ [CHR 0xE3] @ ''o...'' @ [CHR 0x0A]]
          @ map (log_line env (converter self)) files
          @ [replicate 30 (CHR ''-'') @ [CHR 0x0A],
             ''Conclu'' @ [CHR 0xED] @ ''do! '' @ str_nat (N - K) @ ''/'' @ str_nat N
               @ '' arquivos convertidos.'' @ [CHR 0x0A]]"
    using l(2) by simp
  have f: "filter (\<lambda>e. backend_of e = None) ?t
         = map (\<lambda>f. ConvertToPdf f (os_path_dirname env f)) files"
    by (rule filter_convert_calls)
  show ?thesis
    unfolding run using log f by simp
qed

theorem run_conversion_processes_every_file_witness:
  "selected_files sample_batch = [''C:/docs/a.docx'', ''C:/docs/bad.odt'', ''C:/docs/c.rtf'']
   \<and> length (filter (\<lambda>f. \<not> converted windows_host (converter sample_batch) f)
               (selected_files sample_batch)) = 1
   \<and> (\<exists>self'. fst (run_conversion windows_host sample_batch) = Inr self'
         \<and> log_box self'
             = [replicate 30 (CHR ''-'') @ [CHR 0x0A],
                ''Iniciando convers'' @ [CHR 0xE3] @ ''o...'' @ [CHR 0x0A],
                ''[OK] Convertido com Word: a.docx'' @ [CHR 0x0A],
                ''[ERRO] Erro LibreOffice: bad'' @ [CHR 0x0A],
                ''[OK] Convertido com LibreOffice: c.rtf'' @ [CHR 0x0A],
                replicate 30 (CHR ''-'') @ [CHR 0x0A],
                ''Conclu'' @ [CHR 0xED] @ ''do! 2/3 arquivos convertidos.'' @ [CHR 0x0A]])
   \<and> filter (\<lambda>e. backend_of e = None) (snd (run_conversion windows_host sample_batch))
       = [ConvertToPdf ''C:/docs/a.docx'' ''C:/docs'', ConvertToPdf ''C:/docs/bad.odt'' ''C:/docs'',
          ConvertToPdf ''C:/docs/c.rtf'' ''C:/docs'']"
proof -
  let ?files = "[''C:/docs/a.docx'', ''C:/docs/bad.odt'', ''C:/docs/c.rtf'']"
  have fs: "selected_files sample_batch = ?files"
    by (simp add: sample_batch_def)
  have cv: "converter sample_batch = snapshot True (Some ''soffice'')"
    by (simp add: sample_batch_def)
  have lb: "log_box sample_batch = []"
    by (simp add: sample_batch_def)
  have k: "length (filter (\<lambda>f. \<not> converted windows_host (snapshot True (Some ''soffice'')) f) ?files) = 1"
    by code_simp
  have n: "str_nat (3 - 1) = ''2''" "str_nat 3 = ''3''"
    by code_simp+
  have d: "map (\<lambda>f. ConvertToPdf f (os_path_dirname windows_host f)) ?files
      = [ConvertToPdf ''C:/docs/a.docx'' ''C:/docs'', ConvertToPdf ''C:/docs/bad.odt'' ''C:/docs'',
         ConvertToPdf ''C:/docs/c.rtf'' ''C:/docs'']"
    by code_simp
  have ll: "map (log_line windows_host (snapshot True (Some ''soffice''))) ?files
      = [''[OK] Convertido com Word: a.docx'' @ [CHR 0x0A],
         ''[ERRO] Erro LibreOffice: bad'' @ [CHR 0x0A],
         ''[OK] Convertido com LibreOffice: c.rtf'' @ [CHR 0x0A]]"
    by code_simp
  have l3: "length ?files = 3"
    by simp
  note t = run_conversion_processes_every_file [of ?files sample_batch 3 1 windows_host,
      unfolded fs cv lb, OF refl l3 [symmetric] k [symmetric]]
  from t obtain self' where a: "fst (run_conversion windows_host sample_batch) = Inr self'"
    and b: "log_box self' = []
          @ [replicate 30 (CHR ''-'') @ [CHR 0x0A],
             ''Iniciando convers'' @ [CHR 0xE3] @ ''o...'' @ [CHR 0x0A]]
          @ map (log_line windows_host (snapshot True (Some ''soffice''))) ?files
          @ [replicate 30 (CHR ''-'') @ [CHR 0x0A],
             ''Conclu'' @ [CHR 0xED] @ ''do! '' @ str_nat (3 - 1) @ ''/'' @ str_nat 3
               @ '' arquivos convertidos.'' @ [CHR 0x0A]]"
    and c: "filter (\<lambda>e. backend_of e = None) (snd (run_conversion windows_host sample_batch))
         = map (\<lambda>f. ConvertToPdf f (os_path_dirname windows_host f)) ?files"
    by blast
  have b': "log_box self'
             = [replicate 30 (CHR ''-'') @ [CHR 0x0A],
                ''Iniciando convers'' @ [CHR 0xE3] @ ''o...'' @ [CHR 0x0A],
                ''[OK] Convertido com Word: a.docx'' @ [CHR 0x0A],
                ''[ERRO] Erro LibreOffice: bad'' @ [CHR 0x0A],
                ''[OK] Convertido com LibreOffice: c.rtf'' @ [CHR 0x0A],
                replicate 30 (CHR ''-'') @ [CHR 0x0A],
                ''Conclu'' @ [CHR 0xED] @ ''do! 2/3 arquivos convertidos.'' @ [CHR 0x0A]]"
    unfolding b ll n by simp
  have c': "filter (\<lambda>e. backend_of e = None) (snd (run_conversion windows_host sample_batch))
       = [ConvertToPdf ''C:/docs/a.docx'' ''C:/docs'', ConvertToPdf ''C:/docs/bad.odt'' ''C:/docs'',
          ConvertToPdf ''C:/docs/c.rtf'' ''C:/docs'']"
    unfolding c d ..
  have k': "length (filter (\<lambda>f. \<not> converted windows_host (converter sample_batch) f)
               (selected_files sample_batch)) = 1"
    unfolding fs cv by (rule k)
  show ?thesis
    using fs k' a b' c' by blast
qed

end
